theory Spec2Isabelle
  imports Main "HOL-Library.Word"
begin

unbundle bit_operations_syntax

section \<open>Strings\<close>

text \<open>
  Python's \<^verbatim>\<open>sub in s\<close> on \<^verbatim>\<open>str\<close>: \<open>sub\<close> occurs in \<open>s\<close> as a contiguous
  substring.  \<open>startswith\<close> tests one position, \<open>str_in\<close> tries every position from the
  left.
\<close>

fun startswith :: "string \<Rightarrow> string \<Rightarrow> bool" where
  "startswith s [] = True"
| "startswith [] (c # sub) = False"
| "startswith (d # s) (c # sub) = (d = c \<and> startswith s sub)"

fun str_in :: "string \<Rightarrow> string \<Rightarrow> bool" where
  "str_in sub [] = startswith [] sub"
| "str_in sub (d # s) = (startswith (d # s) sub \<or> str_in sub s)"

section \<open>VersionType\<close>

text \<open>
  \<^verbatim>\<open>class VersionType(IntFlag)\<close>: the members are integers and \<^verbatim>\<open>|\<close> is the
  bitwise or of integers.
\<close>

type_synonym VersionType = int

definition RELEASE :: VersionType where "RELEASE = 0"
definition ALPHA :: VersionType where "ALPHA = 1"
definition BETA :: VersionType where "BETA = 2"
definition RC :: VersionType where "RC = 4"
definition DEV :: VersionType where "DEV = 8"

text \<open>\<^verbatim>\<open>flag in value\<close> for an \<^verbatim>\<open>IntFlag\<close>: all bits of the flag are set in the value.\<close>

definition has_flag :: "VersionType \<Rightarrow> VersionType \<Rightarrow> bool" where
  "has_flag flag vt = (vt AND flag = flag)"

text \<open>\<^verbatim>\<open>VersionType.parse\<close>: four independent substring tests, each or-ing one flag in.\<close>

definition parse :: "string \<Rightarrow> VersionType" where
  "parse version =
     (let version_type = RELEASE;
          version_type = (if str_in ''a'' version then version_type OR ALPHA else version_type);
          version_type = (if str_in ''b'' version then version_type OR BETA else version_type);
          version_type = (if str_in ''rc'' version then version_type OR RC else version_type);
          version_type = (if str_in ''dev'' version then version_type OR DEV else version_type)
      in version_type)"

section \<open>Exceptions\<close>

text \<open>
  The exception classes of the module, each with the arguments of its constructor, and the
  exceptions of the standard library that can cross the module's functions.  \<open>HTTPError\<close> is
  the class the module imports from \<^verbatim>\<open>urllib.error\<close>; \<open>URLError\<close> stands for the transport
  failures that are not an HTTP status (connection refused, name resolution).
\<close>

datatype exn =
    InvalidRequirements string
  | VersionTypeMismatch string VersionType VersionType
  | InvalidVersionFormat string string
  | VersionExists string string
  | PypiError string
  | HTTPError nat
  | URLError string
  | JSONDecodeError
  | KeyError string
  | TypeError
  | AttributeError string
  | ModuleNotFoundError string
  | SystemExit nat

section \<open>Command line\<close>

text \<open>
  The namespace that \<^verbatim>\<open>parser.parse_args\<close> returns: one attribute for each
  \<^verbatim>\<open>add_argument\<close> of the module.
\<close>

record namespace =
  module :: string
  warehouse :: string
  alpha :: bool
  beta :: bool
  rc :: bool
  dev :: bool
  release :: bool
  dry :: bool

text \<open>
  \<^verbatim>\<open>_parse_version_type\<close>.  \<^verbatim>\<open>any([...])\<close> is the disjunction of the listed flags;
  the result \<open>None\<close> is Python's \<^verbatim>\<open>None\<close> (no expected type).
\<close>

definition parse_version_type :: "namespace \<Rightarrow> exn + VersionType option" where
  "parse_version_type parameters =
     (if \<not> (release parameters \<or> alpha parameters \<or> beta parameters \<or> rc parameters
             \<or> dev parameters)
      then Inr None
      else
        case
          (if release parameters then
             (if alpha parameters \<or> beta parameters \<or> rc parameters \<or> dev parameters
              then Inl (InvalidRequirements
                     ''--release cannot be combined with --alpha, --beta, --rc, or --dev'')
              else Inr RELEASE)
           else if alpha parameters then
             (if beta parameters \<or> rc parameters
              then Inl (InvalidRequirements ''--alpha, --beta and --rc cannot be combined'')
              else Inr ALPHA)
           else if beta parameters then
             (if alpha parameters \<or> rc parameters
              then Inl (InvalidRequirements ''--alpha, --beta and --rc cannot be combined'')
              else Inr BETA)
           else if rc parameters then Inr RC
           else Inr RELEASE)
        of
          Inl e \<Rightarrow> Inl e
        | Inr version_type \<Rightarrow>
            Inr (Some (if dev parameters then version_type OR DEV else version_type)))"


text \<open>\<^verbatim>\<open>class Parameters(NamedTuple)\<close>.\<close>

record Parameters =
  warehouse :: string
  package :: string
  version :: string
  expected_type :: "VersionType option"
  dry_run :: bool

section \<open>The process and the libraries\<close>

text \<open>
  A module object, as far as the program reads it: the file it was loaded from and its
  \<^verbatim>\<open>__version__\<close> attribute (\<open>None\<close> when the module defines none).
\<close>

record pymodule =
  mod_file :: string
  dunder_version :: "string option"

text \<open>
  A value of \<^verbatim>\<open>sys.modules\<close>: a module object, or Python's \<^verbatim>\<open>None\<close>.  A module
  object is true in a condition, \<^verbatim>\<open>None\<close> is false.
\<close>

datatype entry = PyNone | Module pymodule

fun truthy :: "entry \<Rightarrow> bool" where
  "truthy PyNone = False"
| "truthy (Module m) = True"

text \<open>
  The state of the process that the program reads or writes: the module cache
  \<^verbatim>\<open>sys.modules\<close>, the import path, the caches of the import finders, the URLs requested
  so far and the lines printed so far.
\<close>

record world =
  sys_modules :: "string \<rightharpoonup> entry"
  sys_path :: "string list"
  finder_caches :: "string list"
  requests :: "string list"
  stdout :: "string list"

text \<open>A parsed JSON document, as \<^verbatim>\<open>json.loads\<close> returns it; an object is a dictionary.\<close>

datatype json =
    JNull
  | JBool bool
  | JNumber int
  | JString string
  | JArray "json list"
  | JObject "(string \<times> json) list"

text \<open>
  What \<^verbatim>\<open>urlopen\<close> returns when it does not raise: a response, given by what
  \<^verbatim>\<open>read()\<close> does on it.
\<close>

type_synonym response = "exn + string"

text \<open>
  The functions the program imports from libraries, which are not part of it:
  \<^verbatim>\<open>parser.parse_args\<close> (argparse, on the parser the module builds),
  \<^verbatim>\<open>import_module\<close> (which reads the process state and returns the module cache it
  leaves), \<^verbatim>\<open>safe_version\<close>, \<^verbatim>\<open>urlopen\<close>, \<^verbatim>\<open>json.loads\<close>,
  \<^verbatim>\<open>os.getcwd\<close> and \<^verbatim>\<open>os.linesep\<close>.
\<close>

record lib =
  parser_parse_args :: "string list \<Rightarrow> exn + namespace"
  import_module :: "string \<Rightarrow> world \<Rightarrow> (exn + pymodule) \<times> (string \<rightharpoonup> entry)"
  lib_safe_version :: "string \<Rightarrow> string"
  urlopen :: "string \<Rightarrow> exn + response"
  json_loads :: "string \<Rightarrow> exn + json"
  getcwd :: string
  linesep :: string

section \<open>The registry lookup\<close>

text \<open>\<^verbatim>\<open>except HTTPError\<close> catches the instances of that class only.\<close>

fun is_HTTPError :: "exn \<Rightarrow> bool" where
  "is_HTTPError (HTTPError code) = True"
| "is_HTTPError e = False"

text \<open>
  \<^verbatim>\<open>data['releases']\<close>: a dictionary gives the value or \<open>KeyError\<close>; no other JSON value
  can be indexed by a string.
\<close>

fun getitem :: "json \<Rightarrow> string \<Rightarrow> exn + json" where
  "getitem (JObject d) k = (case map_of d k of None \<Rightarrow> Inl (KeyError k) | Some v \<Rightarrow> Inr v)"
| "getitem j k = Inl TypeError"

text \<open>\<^verbatim>\<open>.keys()\<close>: a method of dictionaries only.\<close>

fun keys :: "json \<Rightarrow> exn + string list" where
  "keys (JObject d) = Inr (map fst d)"
| "keys j = Inl (AttributeError ''keys'')"

text \<open>The texts of the two exceptions of the lookup.\<close>

definition PypiError_message :: "string \<Rightarrow> string" where
  "PypiError_message name = ''Package \"'' @ name @ ''\" could not be fetched from PyPI. ''"

definition VersionExists_message :: "lib \<Rightarrow> string \<Rightarrow> string \<Rightarrow> string" where
  "VersionExists_message l name ver =
     ''Package \"'' @ name @ ''\" with version \"'' @ ver @ ''\" already exists on PyPI.''
       @ linesep l
       @ ''Change the \"'' @ name @ ''.__version__\" or \"'' @ name
       @ ''.__init__.__version__\" to fix this error.''"

text \<open>
  \<^verbatim>\<open>check_unique\<close>.  The one call of \<^verbatim>\<open>urlopen\<close> is recorded in \<open>requests\<close>; only
  that call is inside the \<^verbatim>\<open>try\<close>.  The parameters \<^verbatim>\<open>version\<close> and \<^verbatim>\<open>warehouse\<close>
  of the source are \<open>ver\<close> and \<open>wh\<close> here and below, the source's names being those
  of the fields of \<open>Parameters\<close>.
\<close>

definition check_unique :: "lib \<Rightarrow> string \<Rightarrow> string \<Rightarrow> string \<Rightarrow> world \<Rightarrow> (exn + unit) \<times> world" where
  "check_unique l name ver wh w =
     (let url = wh @ ''/'' @ name @ ''/json'';
          w1 = w\<lparr>requests := requests w @ [url]\<rparr>
      in case urlopen l url of
           Inl e \<Rightarrow> (if is_HTTPError e then (Inl (PypiError name), w1) else (Inl e, w1))
         | Inr response \<Rightarrow>
             (case response of
                Inl e \<Rightarrow> (Inl e, w1)
              | Inr body \<Rightarrow>
                  (case json_loads l body of
                     Inl e \<Rightarrow> (Inl e, w1)
                   | Inr data \<Rightarrow>
                       (case getitem data ''releases'' of
                          Inl e \<Rightarrow> (Inl e, w1)
                        | Inr releases \<Rightarrow>
                            (case keys releases of
                               Inl e \<Rightarrow> (Inl e, w1)
                             | Inr versions \<Rightarrow>
                                 (if ver \<in> set versions
                                  then (Inl (VersionExists name ver), w1)
                                  else (Inr (), w1)))))))"

section \<open>The local checks\<close>

definition check_version_format :: "lib \<Rightarrow> string \<Rightarrow> string \<Rightarrow> exn + unit" where
  "check_version_format l name ver =
     (if lib_safe_version l ver \<noteq> ver
      then Inl (InvalidVersionFormat name ver)
      else Inr ())"

definition check_version_type :: "VersionType \<Rightarrow> string \<Rightarrow> exn + unit" where
  "check_version_type expected ver =
     (let actual = parse ver
      in if actual \<noteq> expected
         then Inl (VersionTypeMismatch ver actual expected)
         else Inr ())"

section \<open>Resolving the module\<close>

text \<open>\<^verbatim>\<open>importlib.invalidate_caches\<close> empties the caches of the finders.\<close>

definition invalidate_caches :: "world \<Rightarrow> world" where
  "invalidate_caches w = w\<lparr>finder_caches := []\<rparr>"

text \<open>\<^verbatim>\<open>sys.modules.pop(module_name, None)\<close>: the entry removed, \<^verbatim>\<open>None\<close> if there was none.\<close>

definition modules_pop :: "string \<Rightarrow> world \<Rightarrow> entry \<times> world" where
  "modules_pop module_name w =
     (case sys_modules w module_name of None \<Rightarrow> PyNone | Some e \<Rightarrow> e,
      w\<lparr>sys_modules := (sys_modules w)(module_name := None)\<rparr>)"

text \<open>
  \<^verbatim>\<open>_resolve_module\<close>.  An exception of \<^verbatim>\<open>import_module\<close> leaves the function before
  the cache is written back.
\<close>

definition resolve_module :: "lib \<Rightarrow> string \<Rightarrow> world \<Rightarrow> (exn + pymodule) \<times> world" where
  "resolve_module l module_name w =
     (let w1 = invalidate_caches w;
          (old_module, w2) = modules_pop module_name w1;
          (r, cache) = import_module l module_name w2;
          w3 = w2\<lparr>sys_modules := cache\<rparr>
      in case r of
           Inl e \<Rightarrow> (Inl e, w3)
         | Inr m \<Rightarrow>
             (Inr m,
              if truthy old_module
              then w3\<lparr>sys_modules := (sys_modules w3)(module_name \<mapsto> old_module)\<rparr>
              else w3))"

text \<open>
  \<^verbatim>\<open>_parse_args\<close>, in the order of the source: the command line, the module, the
  expected type, and last the read of \<^verbatim>\<open>module.__version__\<close>.
\<close>

definition parse_args :: "lib \<Rightarrow> string list \<Rightarrow> world \<Rightarrow> (exn + Parameters) \<times> world" where
  "parse_args l args w =
     (case parser_parse_args l args of
        Inl e \<Rightarrow> (Inl e, w)
      | Inr parameters \<Rightarrow>
          (let module_name = module parameters
           in case resolve_module l module_name w of
                (Inl e, w1) \<Rightarrow> (Inl e, w1)
              | (Inr m, w1) \<Rightarrow>
                  (case parse_version_type parameters of
                     Inl e \<Rightarrow> (Inl e, w1)
                   | Inr version_type \<Rightarrow>
                       (case dunder_version m of
                          None \<Rightarrow> (Inl (AttributeError ''__version__''), w1)
                        | Some v \<Rightarrow>
                            (Inr \<lparr>warehouse = namespace.warehouse parameters,
                                  package = module_name,
                                  version = v,
                                  expected_type = version_type,
                                  dry_run = dry parameters\<rparr>, w1)))))"

section \<open>The program\<close>

definition ok_message :: "Parameters \<Rightarrow> string" where
  "ok_message p =
     ''OK: '' @ package p @ '' '' @ version p @ '' is valid and not present on PyPI.''"

definition print :: "string \<Rightarrow> world \<Rightarrow> world" where
  "print line w = w\<lparr>stdout := stdout w @ [line]\<rparr>"

definition main :: "lib \<Rightarrow> string list \<Rightarrow> world \<Rightarrow> (exn + unit) \<times> world" where
  "main l args w =
     (case parse_args l args w of
        (Inl e, w1) \<Rightarrow> (Inl e, w1)
      | (Inr p, w1) \<Rightarrow>
          (case check_version_format l (package p) (version p) of
             Inl e \<Rightarrow> (Inl e, w1)
           | Inr u \<Rightarrow>
               (case (case expected_type p of
                        None \<Rightarrow> Inr ()
                      | Some expected \<Rightarrow> check_version_type expected (version p)) of
                  Inl e \<Rightarrow> (Inl e, w1)
                | Inr u \<Rightarrow>
                    (case (if \<not> dry_run p
                           then check_unique l (package p) (version p) (warehouse p) w1
                           else (Inr (), w1)) of
                       (Inl e, w2) \<Rightarrow> (Inl e, w2)
                     | (Inr u, w2) \<Rightarrow> (Inr (), print (ok_message p) w2)))))"

text \<open>
  The script: \<^verbatim>\<open>sys.path.insert(0, os.getcwd())\<close>, then \<^verbatim>\<open>main(sys.argv[1:])\<close>.  The
  interpreter exits with 0 when the script ends, with the code of a \<open>SystemExit\<close>, and with
  1 on any other exception.
\<close>

definition script :: "lib \<Rightarrow> string list \<Rightarrow> world \<Rightarrow> (exn + unit) \<times> world" where
  "script l argv w = main l (drop 1 argv) (w\<lparr>sys_path := getcwd l # sys_path w\<rparr>)"

fun exit_code :: "exn + unit \<Rightarrow> nat" where
  "exit_code (Inr u) = 0"
| "exit_code (Inl (SystemExit c)) = c"
| "exit_code (Inl e) = 1"


section \<open>A concrete process\<close>

text \<open>
  The import of a top-level module as \<^verbatim>\<open>importlib\<close> documents it: a cached module is
  returned, a cached \<^verbatim>\<open>None\<close> stops the import, and otherwise the module the finders
  locate is loaded and entered in the cache.  \<open>finder\<close> gives the modules that can be
  located.
\<close>

definition import_from ::
    "(string \<rightharpoonup> pymodule) \<Rightarrow> string \<Rightarrow> world \<Rightarrow> (exn + pymodule) \<times> (string \<rightharpoonup> entry)" where
  "import_from finder module_name w =
     (case sys_modules w module_name of
        Some (Module m) \<Rightarrow> (Inr m, sys_modules w)
      | Some PyNone \<Rightarrow> (Inl (ModuleNotFoundError module_name), sys_modules w)
      | None \<Rightarrow>
          (case finder module_name of
             None \<Rightarrow> (Inl (ModuleNotFoundError module_name), sys_modules w)
           | Some m \<Rightarrow> (Inr m, (sys_modules w)(module_name \<mapsto> Module m))))"

text \<open>
  The project's module \<^verbatim>\<open>pkg\<close> with \<^verbatim>\<open>__version__ = "1.0.0"\<close>, a copy of it installed
  among the dependencies, and a registry that has published \<^verbatim>\<open>0.9.0\<close>.
\<close>

definition pkg_module :: pymodule where
  "pkg_module = \<lparr>mod_file = ''./pkg/__init__.py'', dunder_version = Some ''1.0.0''\<rparr>"

definition installed_pkg :: pymodule where
  "installed_pkg =
     \<lparr>mod_file = ''venv/Lib/site-packages/pkg/__init__.py'', dunder_version = Some ''0.9.0''\<rparr>"

definition registry_body :: string where
  "registry_body = ''{\"releases\": {\"0.9.0\": []}}''"

definition registry_json :: json where
  "registry_json = JObject [(''releases'', JObject [(''0.9.0'', JArray [])])]"

text \<open>
  The library functions at the arguments of one run: the command line \<open>args\<close> parses to
  \<open>ns\<close>, the finders locate \<^verbatim>\<open>pkg\<close>, the versions used are in normal form, and the
  registry answers every request with \<open>reply\<close>.
\<close>

definition example_lib :: "string list \<Rightarrow> namespace \<Rightarrow> exn + response \<Rightarrow> lib" where
  "example_lib args ns reply =
     \<lparr>parser_parse_args = (\<lambda>a. if a = args then Inr ns else Inl (SystemExit 2)),
      import_module = import_from [''pkg'' \<mapsto> pkg_module],
      lib_safe_version = (\<lambda>v. if v = ''1.0.0A1'' then ''1.0.0a1'' else v),
      urlopen = (\<lambda>url. reply),
      json_loads = (\<lambda>body. if body = registry_body then Inr registry_json
                            else Inl JSONDecodeError),
      getcwd = ''/work'',
      linesep = [CHR 0x0A]\<rparr>"

text \<open>
  Parsed command lines for \<^verbatim>\<open>pkg\<close>: \<open>flags\<close> sets the channel flags, \<open>options\<close> the
  registry and the dry run.
\<close>

definition flags :: "bool \<Rightarrow> bool \<Rightarrow> bool \<Rightarrow> bool \<Rightarrow> bool \<Rightarrow> namespace" where
  "flags al be r de re =
     \<lparr>module = ''pkg'', warehouse = ''https://pypi.org/pypi'', alpha = al, beta = be, rc = r,
      dev = de, release = re, dry = False\<rparr>"

definition options :: "string \<Rightarrow> bool \<Rightarrow> namespace" where
  "options wh d =
     \<lparr>module = ''pkg'', warehouse = wh, alpha = False, beta = False, rc = False,
      dev = False, release = False, dry = d\<rparr>"

definition fresh_world :: world where
  "fresh_world =
     \<lparr>sys_modules = Map.empty, sys_path = [], finder_caches = [], requests = [], stdout = []\<rparr>"


text \<open>
  Three runs: a registry other than the default one, a dry run while the registry cannot be
  reached, and a lookup that the registry answers with status 404.
\<close>

definition test_pypi :: string where
  "test_pypi = ''https://test.pypi.org/pypi''"

definition custom_run :: lib where
  "custom_run =
     example_lib [''pkg'', ''-w'', test_pypi] (options test_pypi False) (Inr (Inr registry_body))"

definition dry_run_offline :: lib where
  "dry_run_offline =
     example_lib [''pkg'', ''--dry''] (options ''https://pypi.org/pypi'' True)
       (Inl (URLError ''[Errno 111] Connection refused''))"

definition online :: "exn + response \<Rightarrow> lib" where
  "online reply = example_lib [''pkg''] (options ''https://pypi.org/pypi'' False) reply"

text \<open>
  \<^verbatim>\<open>safe_version\<close> belongs to \<^verbatim>\<open>pkg_resources\<close>, which is not among the sources, so the
  program's functions take it from \<open>lib\<close>.  These are its values at four versions.  The
  string \<^verbatim>\<open>1.0 A1\<close> is no version of PEP 440, and its blank becomes a dot; \<^verbatim>\<open>1.0.A1\<close> and
  \<^verbatim>\<open>1.0.0A1\<close> are versions and are written in the normal form of PEP 440; \<^verbatim>\<open>1.0a1\<close> is
  in that form already.  The table leaves every other string as it is, and is used at no
  other string than \<^verbatim>\<open>1.0.0a1\<close>, which is in normal form too.
\<close>

definition safe_version_values :: "string \<Rightarrow> string" where
  "safe_version_values v =
     (if v = ''1.0 A1'' then ''1.0.A1''
      else if v = ''1.0.A1'' then ''1.0a1''
      else if v = ''1.0.0A1'' then ''1.0.0a1''
      else v)"

definition normalising :: lib where
  "normalising = (online (Inr (Inr registry_body)))\<lparr>lib_safe_version := safe_version_values\<rparr>"

section \<open>Auxiliary facts\<close>

lemma flag_values: "RELEASE = 0" "ALPHA = 1" "BETA = 2" "RC = 4" "DEV = 8"
  by (simp_all add: RELEASE_def ALPHA_def BETA_def RC_def DEV_def)

text \<open>\<open>str_in\<close> is the occurrence of a contiguous substring.\<close>

lemma startswith_iff: "startswith s sub \<longleftrightarrow> (\<exists>q. s = sub @ q)"
  by (induction s sub rule: startswith.induct) auto

lemma str_in_iff: "str_in sub s \<longleftrightarrow> (\<exists>p q. s = p @ sub @ q)"
proof (induction s)
  case Nil
  then show ?case by (simp add: startswith_iff)
next
  case (Cons d s)
  show ?case
  proof
    assume "str_in sub (d # s)"
    then consider "startswith (d # s) sub" | "str_in sub s" by auto
    then show "\<exists>p q. d # s = p @ sub @ q"
    proof cases
      case 1
      then obtain q where "d # s = sub @ q" by (auto simp: startswith_iff)
      then have "d # s = [] @ sub @ q" by simp
      then show ?thesis by blast
    next
      case 2
      then obtain p q where "s = p @ sub @ q" using Cons.IH by blast
      then have "d # s = (d # p) @ sub @ q" by simp
      then show ?thesis by blast
    qed
  next
    assume "\<exists>p q. d # s = p @ sub @ q"
    then obtain p q where pq: "d # s = p @ sub @ q" by blast
    show "str_in sub (d # s)"
    proof (cases p)
      case Nil
      with pq have "startswith (d # s) sub" by (auto simp: startswith_iff)
      then show ?thesis by simp
    next
      case (Cons e p')
      with pq have "s = p' @ sub @ q" by simp
      then have "str_in sub s" using Cons.IH by blast
      then show ?thesis by simp
    qed
  qed
qed

lemma str_in_middle: "str_in sub (p @ sub @ q)"
  unfolding str_in_iff by blast

lemma check_unique_requests:
  "requests (snd (check_unique l name ver wh w)) = requests w @ [wh @ ''/'' @ name @ ''/json'']"
  by (simp add: check_unique_def Let_def split: sum.splits)

text \<open>What resolving the module and parsing the arguments leave untouched.\<close>

lemma check_unique_stdout: "stdout (snd (check_unique l name ver wh w)) = stdout w"
  by (simp add: check_unique_def Let_def split: sum.splits)

lemma resolve_module_frame:
  "stdout (snd (resolve_module l n w)) = stdout w
   \<and> requests (snd (resolve_module l n w)) = requests w"
  by (simp add: resolve_module_def invalidate_caches_def modules_pop_def Let_def
      split: prod.splits sum.splits)

lemma parse_args_frame:
  "stdout (snd (parse_args l args w)) = stdout w
   \<and> requests (snd (parse_args l args w)) = requests w"
proof (cases "parser_parse_args l args")
  case (Inl e)
  then show ?thesis by (simp add: parse_args_def)
next
  case (Inr ns)
  show ?thesis
    using resolve_module_frame [of l "module ns" w] Inr
    by (auto simp add: parse_args_def Let_def split: prod.splits sum.splits option.splits)
qed

lemma resolve_module_registry:
  "resolve_module (l\<lparr>urlopen := u, json_loads := j\<rparr>) n w = resolve_module l n w"
  by (simp add: resolve_module_def)

lemma parse_args_registry:
  "parse_args (l\<lparr>urlopen := u, json_loads := j\<rparr>) args w = parse_args l args w"
  by (simp add: parse_args_def resolve_module_registry split: sum.splits)

lemmas run_defs = script_def main_def parse_args_def resolve_module_def invalidate_caches_def
  modules_pop_def import_from_def example_lib_def options_def fresh_world_def pkg_module_def
  check_version_format_def check_unique_def registry_body_def registry_json_def print_def
  ok_message_def parse_version_type_def test_pypi_def custom_run_def dry_run_offline_def
  online_def

section \<open>The expected type from the command line\<close>

text \<open>
  C1, as the code has it.  \<^verbatim>\<open>--release\<close> together with \<^verbatim>\<open>--dev\<close> is refused with
  \<open>InvalidRequirements\<close>: the guard under \<^verbatim>\<open>if parameters.release\<close> lists
  \<^verbatim>\<open>parameters.dev\<close>.  The type \<open>RELEASE | DEV\<close>, which is \<open>DEV\<close>, is what \<^verbatim>\<open>--dev\<close>
  alone produces.
\<close>

theorem release_dev_rejected:
  "(release p \<and> dev p \<longrightarrow>
      parse_version_type p = Inl (InvalidRequirements
         ''--release cannot be combined with --alpha, --beta, --rc, or --dev''))
   \<and> (dev p \<and> \<not> release p \<and> \<not> alpha p \<and> \<not> beta p \<and> \<not> rc p \<longrightarrow>
      parse_version_type p = Inr (Some (RELEASE OR DEV))
      \<and> parse_version_type p = Inr (Some DEV))"
  by (simp add: parse_version_type_def flag_values)

theorem release_dev_rejected_witness:
  "release (flags False False False True True) \<and> dev (flags False False False True True)
   \<and> parse_version_type (flags False False False True True)
       = Inl (InvalidRequirements
           ''--release cannot be combined with --alpha, --beta, --rc, or --dev'')
   \<and> dev (flags False False False True False) \<and> \<not> release (flags False False False True False)
   \<and> parse_version_type (flags False False False True False) = Inr (Some DEV)"
  using release_dev_rejected [of "flags False False False True True"]
    release_dev_rejected [of "flags False False False True False"]
  by (simp add: flags_def flag_values)

text \<open>
  C1 as stated fails: with \<^verbatim>\<open>--release --dev\<close> and none of \<^verbatim>\<open>--alpha\<close>,
  \<^verbatim>\<open>--beta\<close>, \<^verbatim>\<open>--rc\<close> the result is the exception, not the type \<open>RELEASE | DEV\<close>.
\<close>

theorem release_dev_counterexample:
  "release (flags False False False True True) \<and> dev (flags False False False True True)
   \<and> \<not> alpha (flags False False False True True) \<and> \<not> beta (flags False False False True True)
   \<and> \<not> rc (flags False False False True True)
   \<and> parse_version_type (flags False False False True True)
       = Inl (InvalidRequirements
           ''--release cannot be combined with --alpha, --beta, --rc, or --dev'')
   \<and> parse_version_type (flags False False False True True) \<noteq> Inr (Some (RELEASE OR DEV))"
  by (simp add: parse_version_type_def flags_def)

text \<open>
  C7.  Whenever at least two of \<^verbatim>\<open>--alpha\<close>, \<^verbatim>\<open>--beta\<close>, \<^verbatim>\<open>--rc\<close> are set, whatever
  the other flags are, \<^verbatim>\<open>_parse_version_type\<close> raises \<open>InvalidRequirements\<close>.
\<close>

theorem exclusive_flags_rejected:
  assumes "(alpha p \<and> beta p) \<or> (alpha p \<and> rc p) \<or> (beta p \<and> rc p)"
  shows "\<exists>msg. parse_version_type p = Inl (InvalidRequirements msg)"
  using assms by (auto simp add: parse_version_type_def)

theorem exclusive_flags_rejected_witness:
  "beta (flags False True True True False) \<and> rc (flags False True True True False)
   \<and> (\<exists>msg. parse_version_type (flags False True True True False)
              = Inl (InvalidRequirements msg))"
proof -
  have h: "(alpha (flags False True True True False) \<and> beta (flags False True True True False))
         \<or> (alpha (flags False True True True False) \<and> rc (flags False True True True False))
         \<or> (beta (flags False True True True False) \<and> rc (flags False True True True False))"
    by (simp add: flags_def)
  show ?thesis
    using exclusive_flags_rejected [OF h] by (simp add: flags_def)
qed

text \<open>
  C10.  An expected type that \<^verbatim>\<open>_parse_version_type\<close> returns is one of \<open>RELEASE\<close>,
  \<open>ALPHA\<close>, \<open>BETA\<close>, \<open>RC\<close>, alone or combined with \<open>DEV\<close>; it never holds two of
  \<open>ALPHA\<close>, \<open>BETA\<close>, \<open>RC\<close>.
\<close>

theorem expected_type_one_channel:
  assumes "parse_version_type p = Inr (Some vt)"
  shows "vt \<in> {RELEASE, ALPHA, BETA, RC, RELEASE OR DEV, ALPHA OR DEV, BETA OR DEV, RC OR DEV}
         \<and> \<not> (has_flag ALPHA vt \<and> has_flag BETA vt)
         \<and> \<not> (has_flag ALPHA vt \<and> has_flag RC vt)
         \<and> \<not> (has_flag BETA vt \<and> has_flag RC vt)"
  using assms
  by (auto simp add: parse_version_type_def flag_values has_flag_def split: if_splits)

theorem expected_type_one_channel_witness:
  "parse_version_type (flags True False False True False) = Inr (Some 9)
   \<and> has_flag ALPHA 9 \<and> \<not> has_flag BETA 9 \<and> \<not> has_flag RC 9"
proof -
  have h: "parse_version_type (flags True False False True False) = Inr (Some 9)"
    by (simp add: parse_version_type_def flags_def flag_values)
  show ?thesis
    using h expected_type_one_channel [OF h] by (simp add: has_flag_def flag_values)
qed

section \<open>The type of a version\<close>

text \<open>
  C6.  \<^verbatim>\<open>VersionType.parse\<close> sets \<open>ALPHA\<close> exactly when \<^verbatim>\<open>a\<close> occurs in the version,
  \<open>BETA\<close> exactly when \<^verbatim>\<open>b\<close> occurs, \<open>RC\<close> exactly when \<^verbatim>\<open>rc\<close> occurs and \<open>DEV\<close>
  exactly when \<^verbatim>\<open>dev\<close> occurs; the result is \<open>RELEASE\<close> exactly when none occurs, and it
  is \<open>ALPHA\<close> alone for a version with \<^verbatim>\<open>a\<close> and none of the other three.
\<close>

theorem parse_flags:
  "has_flag ALPHA (parse v) = str_in ''a'' v
   \<and> has_flag BETA (parse v) = str_in ''b'' v
   \<and> has_flag RC (parse v) = str_in ''rc'' v
   \<and> has_flag DEV (parse v) = str_in ''dev'' v
   \<and> (parse v = RELEASE) =
       (\<not> str_in ''a'' v \<and> \<not> str_in ''b'' v \<and> \<not> str_in ''rc'' v \<and> \<not> str_in ''dev'' v)
   \<and> (str_in ''a'' v \<and> \<not> str_in ''b'' v \<and> \<not> str_in ''rc'' v \<and> \<not> str_in ''dev'' v
        \<longrightarrow> parse v = ALPHA)"
  by (simp add: parse_def has_flag_def flag_values Let_def)

theorem parse_flags_witness:
  "str_in ''a'' ''1.0.0a1'' \<and> \<not> str_in ''b'' ''1.0.0a1'' \<and> \<not> str_in ''rc'' ''1.0.0a1''
   \<and> \<not> str_in ''dev'' ''1.0.0a1'' \<and> parse ''1.0.0a1'' = ALPHA"
  using parse_flags [of "''1.0.0a1''"] by simp

section \<open>The format check\<close>

text \<open>
  C8, as the code has it.  \<^verbatim>\<open>check_version_format\<close> raises \<open>InvalidVersionFormat\<close>, with
  the name and the version, exactly when \<^verbatim>\<open>safe_version\<close> of the version differs from the
  version, and returns exactly when \<^verbatim>\<open>safe_version\<close> leaves the version as it is; this
  holds for every function \<^verbatim>\<open>safe_version\<close>.  So a version that \<^verbatim>\<open>safe_version\<close> leaves
  as it is passes the check, and the normal form of a version passes the check exactly when
  normalising it once more changes nothing.
\<close>

theorem format_check_iff_changed:
  "(check_version_format l name v = Inl (InvalidVersionFormat name v))
      = (lib_safe_version l v \<noteq> v)
   \<and> (check_version_format l name v = Inr ()) = (lib_safe_version l v = v)
   \<and> (check_version_format l name (lib_safe_version l v) = Inr ())
      = (lib_safe_version l (lib_safe_version l v) = lib_safe_version l v)"
  by (simp add: check_version_format_def)

theorem format_check_iff_changed_witness:
  "check_version_format normalising ''pkg'' ''1.0.0A1''
     = Inl (InvalidVersionFormat ''pkg'' ''1.0.0A1'')
   \<and> check_version_format normalising ''pkg'' ''1.0a1'' = Inr ()
   \<and> check_version_format normalising ''pkg'' (lib_safe_version normalising ''1.0.0A1'') = Inr ()
   \<and> lib_safe_version normalising (lib_safe_version normalising ''1.0.0A1'')
       = lib_safe_version normalising ''1.0.0A1''"
  using format_check_iff_changed [of normalising "''pkg''" "''1.0.0A1''"]
    format_check_iff_changed [of normalising "''pkg''" "''1.0a1''"]
  by (simp add: normalising_def safe_version_values_def)

text \<open>
  C8 as stated fails in its second half: \<^verbatim>\<open>safe_version\<close> is not idempotent.  The normal
  form of \<^verbatim>\<open>1.0 A1\<close> is \<^verbatim>\<open>1.0.A1\<close>, normalising that gives \<^verbatim>\<open>1.0a1\<close>, and the check
  rejects the normal form \<^verbatim>\<open>1.0.A1\<close>.
\<close>

theorem normal_form_rejected_counterexample:
  "lib_safe_version normalising ''1.0 A1'' = ''1.0.A1''
   \<and> lib_safe_version normalising (lib_safe_version normalising ''1.0 A1'') = ''1.0a1''
   \<and> lib_safe_version normalising (lib_safe_version normalising ''1.0 A1'')
       \<noteq> lib_safe_version normalising ''1.0 A1''
   \<and> check_version_format normalising ''pkg'' (lib_safe_version normalising ''1.0 A1'')
       = Inl (InvalidVersionFormat ''pkg'' ''1.0.A1'')"
  by (simp add: check_version_format_def normalising_def safe_version_values_def)

section \<open>The registry lookup, verified\<close>

text \<open>
  C2, as the code has it.  \<^verbatim>\<open>check_unique\<close> issues exactly one GET.  When \<^verbatim>\<open>urlopen\<close>
  raises \<open>HTTPError\<close> (an HTTP error status such as 404) it fails with \<open>PypiError\<close>, whose
  text holds the package name; any other exception of \<^verbatim>\<open>urlopen\<close> is not caught by
  \<^verbatim>\<open>except HTTPError\<close> and leaves \<^verbatim>\<open>check_unique\<close> as it is.
\<close>

theorem http_error_is_pypi_error:
  "requests (snd (check_unique l name ver wh w)) = requests w @ [wh @ ''/'' @ name @ ''/json'']
   \<and> (urlopen l (wh @ ''/'' @ name @ ''/json'') = Inl (HTTPError code) \<longrightarrow>
        fst (check_unique l name ver wh w) = Inl (PypiError name))
   \<and> (\<forall>e. urlopen l (wh @ ''/'' @ name @ ''/json'') = Inl e \<and> \<not> is_HTTPError e \<longrightarrow>
        fst (check_unique l name ver wh w) = Inl e)
   \<and> str_in name (PypiError_message name)"
proof -
  have "str_in name (PypiError_message name)"
    unfolding PypiError_message_def by (rule str_in_middle)
  then show ?thesis
    by (simp add: check_unique_requests) (simp add: check_unique_def Let_def)
qed

theorem http_error_is_pypi_error_witness:
  "urlopen (online (Inl (HTTPError 404))) (''https://pypi.org/pypi'' @ ''/'' @ ''pkg'' @ ''/json'')
     = Inl (HTTPError 404)
   \<and> fst (check_unique (online (Inl (HTTPError 404))) ''pkg'' ''1.0.0'' ''https://pypi.org/pypi''
            fresh_world) = Inl (PypiError ''pkg'')
   \<and> requests (snd (check_unique (online (Inl (HTTPError 404))) ''pkg'' ''1.0.0''
                      ''https://pypi.org/pypi'' fresh_world))
       = [''https://pypi.org/pypi/pkg/json'']
   \<and> fst (check_unique (online (Inl (URLError ''[Errno 111] Connection refused''))) ''pkg''
            ''1.0.0'' ''https://pypi.org/pypi'' fresh_world)
       = Inl (URLError ''[Errno 111] Connection refused'')"
  using http_error_is_pypi_error [of "online (Inl (HTTPError 404))" "''pkg''" "''1.0.0''"
      "''https://pypi.org/pypi''" fresh_world 404]
    http_error_is_pypi_error [of "online (Inl (URLError ''[Errno 111] Connection refused''))"
      "''pkg''" "''1.0.0''" "''https://pypi.org/pypi''" fresh_world 404]
  by (simp add: online_def example_lib_def fresh_world_def)

text \<open>
  C2 as stated fails for a plain network error: a refused connection makes \<^verbatim>\<open>urlopen\<close>
  raise \<open>URLError\<close>, and \<^verbatim>\<open>check_unique\<close> fails with that \<open>URLError\<close>, not with
  \<open>PypiError\<close>.
\<close>

theorem network_error_counterexample:
  "fst (check_unique (online (Inl (URLError ''[Errno 111] Connection refused''))) ''pkg'' ''1.0.0''
          ''https://pypi.org/pypi'' fresh_world)
     = Inl (URLError ''[Errno 111] Connection refused'')
   \<and> fst (check_unique (online (Inl (URLError ''[Errno 111] Connection refused''))) ''pkg''
            ''1.0.0'' ''https://pypi.org/pypi'' fresh_world)
     \<noteq> Inl (PypiError ''pkg'')"
  by (simp add: check_unique_def online_def example_lib_def)

text \<open>
  C5.  When the GET succeeds and the body parses to a document whose \<^verbatim>\<open>releases\<close> is a
  mapping, \<^verbatim>\<open>check_unique\<close> fails with \<open>VersionExists\<close>, whose text holds the package name
  and the version, exactly when the version is a key of the mapping, and returns without an
  error exactly when it is not.
\<close>

theorem version_exists_iff_key:
  assumes "urlopen l (wh @ ''/'' @ name @ ''/json'') = Inr (Inr body)"
    and "json_loads l body = Inr data"
    and "getitem data ''releases'' = Inr (JObject releases)"
  shows "(fst (check_unique l name ver wh w) = Inl (VersionExists name ver))
           = (ver \<in> dom (map_of releases))
         \<and> (fst (check_unique l name ver wh w) = Inr ()) = (ver \<notin> dom (map_of releases))
         \<and> str_in name (VersionExists_message l name ver)
         \<and> str_in ver (VersionExists_message l name ver)"
proof -
  have n: "str_in name (VersionExists_message l name ver)"
    unfolding VersionExists_message_def by (rule str_in_middle)
  have "VersionExists_message l name ver
          = (''Package \"'' @ name @ ''\" with version \"'') @ ver
            @ (''\" already exists on PyPI.'' @ linesep l @ ''Change the \"'' @ name
               @ ''.__version__\" or \"'' @ name @ ''.__init__.__version__\" to fix this error.'')"
    by (simp add: VersionExists_message_def)
  then have v: "str_in ver (VersionExists_message l name ver)"
    using str_in_middle by metis
  from assms n v show ?thesis
    by (simp add: check_unique_def Let_def dom_map_of_conv_image_fst)
qed

theorem version_exists_iff_key_witness:
  "fst (check_unique (online (Inr (Inr registry_body))) ''pkg'' ''0.9.0'' ''https://pypi.org/pypi''
          fresh_world) = Inl (VersionExists ''pkg'' ''0.9.0'')
   \<and> fst (check_unique (online (Inr (Inr registry_body))) ''pkg'' ''1.0.0''
            ''https://pypi.org/pypi'' fresh_world) = Inr ()"
proof -
  let ?l = "online (Inr (Inr registry_body))"
  have a: "urlopen ?l (''https://pypi.org/pypi'' @ ''/'' @ ''pkg'' @ ''/json'')
             = Inr (Inr registry_body)"
    by (simp add: online_def example_lib_def)
  have b: "json_loads ?l registry_body = Inr registry_json"
    by (simp add: online_def example_lib_def)
  have c: "getitem registry_json ''releases'' = Inr (JObject [(''0.9.0'', JArray [])])"
    by (simp add: registry_json_def)
  show ?thesis
    using version_exists_iff_key [OF a b c, of "''0.9.0''" fresh_world]
      version_exists_iff_key [OF a b c, of "''1.0.0''" fresh_world]
    by simp
qed

section \<open>The module cache\<close>

text \<open>
  C3, as the code has it.  When \<^verbatim>\<open>_resolve_module\<close> returns and the cache held a module
  under the name before the call, the cache holds that module under the name afterwards,
  whatever \<^verbatim>\<open>import_module\<close> did to the cache.  When the cache held nothing under the
  name, or \<^verbatim>\<open>None\<close>, nothing is written back and the cache is the one
  \<^verbatim>\<open>import_module\<close> left.
\<close>

theorem resolve_module_restores:
  assumes "resolve_module l module_name w = (Inr m, w')"
  shows "(sys_modules w module_name = Some (Module old) \<longrightarrow>
            sys_modules w' module_name = Some (Module old))
         \<and> (sys_modules w module_name = None \<or> sys_modules w module_name = Some PyNone \<longrightarrow>
            sys_modules w' =
              snd (import_module l module_name
                     ((invalidate_caches w)\<lparr>sys_modules := (sys_modules w)(module_name := None)\<rparr>)))"
  using assms
  by (auto simp add: resolve_module_def invalidate_caches_def modules_pop_def Let_def
      split: prod.splits sum.splits if_splits)

theorem resolve_module_restores_witness:
  "resolve_module dry_run_offline ''pkg''
       (fresh_world\<lparr>sys_modules := [''pkg'' \<mapsto> Module installed_pkg]\<rparr>)
     = (Inr pkg_module, fresh_world\<lparr>sys_modules := [''pkg'' \<mapsto> Module installed_pkg]\<rparr>)
   \<and> sys_modules (fresh_world\<lparr>sys_modules := [''pkg'' \<mapsto> Module installed_pkg]\<rparr>) ''pkg''
       = Some (Module installed_pkg)
   \<and> resolve_module dry_run_offline ''pkg'' fresh_world
       = (Inr pkg_module, fresh_world\<lparr>sys_modules := [''pkg'' \<mapsto> Module pkg_module]\<rparr>)
   \<and> sys_modules fresh_world ''pkg'' = None"
proof -
  let ?w = "fresh_world\<lparr>sys_modules := [''pkg'' \<mapsto> Module installed_pkg]\<rparr>"
  let ?w' = "fresh_world\<lparr>sys_modules := [''pkg'' \<mapsto> Module pkg_module]\<rparr>"
  have h: "resolve_module dry_run_offline ''pkg'' ?w = (Inr pkg_module, ?w)"
    by (simp add: resolve_module_def invalidate_caches_def modules_pop_def Let_def
        dry_run_offline_def example_lib_def import_from_def fresh_world_def)
  have k: "resolve_module dry_run_offline ''pkg'' fresh_world = (Inr pkg_module, ?w')"
    by (simp add: resolve_module_def invalidate_caches_def modules_pop_def Let_def
        dry_run_offline_def example_lib_def import_from_def fresh_world_def)
  show ?thesis
    using h k resolve_module_restores [OF h, of installed_pkg]
      resolve_module_restores [OF k, of installed_pkg]
    by (simp add: fresh_world_def)
qed

text \<open>
  C3 as stated fails where the name had no cached entry: the import enters the module in
  the cache, \<^verbatim>\<open>old_module\<close> is \<^verbatim>\<open>None\<close>, and the entry stays after the call.
\<close>

theorem uncached_module_counterexample:
  "sys_modules fresh_world ''pkg'' = None
   \<and> fst (resolve_module dry_run_offline ''pkg'' fresh_world) = Inr pkg_module
   \<and> sys_modules (snd (resolve_module dry_run_offline ''pkg'' fresh_world)) ''pkg''
       = Some (Module pkg_module)
   \<and> sys_modules (snd (resolve_module dry_run_offline ''pkg'' fresh_world)) ''pkg''
       \<noteq> sys_modules fresh_world ''pkg''"
  by (simp add: resolve_module_def invalidate_caches_def modules_pop_def Let_def
      dry_run_offline_def example_lib_def import_from_def fresh_world_def)

section \<open>The whole run\<close>

text \<open>
  C4, as the code has it.  A run in which \<^verbatim>\<open>main\<close> returns ends with exit code 0 and has
  printed one line, \<^verbatim>\<open>OK: <package> <version> is valid and not present on PyPI.\<close>: the
  registry is named by the fixed word \<^verbatim>\<open>PyPI\<close>, whatever \<^verbatim>\<open>--warehouse\<close> was.
\<close>

theorem success_prints_pypi:
  assumes "fst (script l argv w) = Inr ()"
  shows "exit_code (fst (script l argv w)) = 0
         \<and> (\<exists>p w1.
               parse_args l (drop 1 argv) (w\<lparr>sys_path := getcwd l # sys_path w\<rparr>) = (Inr p, w1)
               \<and> stdout (snd (script l argv w))
                  = stdout w @ [''OK: '' @ package p @ '' '' @ version p
                                 @ '' is valid and not present on PyPI.''])"
proof -
  let ?w = "w\<lparr>sys_path := getcwd l # sys_path w\<rparr>"
  obtain r w1 where pa: "parse_args l (drop 1 argv) ?w = (r, w1)"
    by (cases "parse_args l (drop 1 argv) ?w")
  from assms pa obtain p where r: "r = Inr p"
    by (cases r) (auto simp add: script_def main_def)
  have s1: "stdout w1 = stdout w"
    using parse_args_frame [of l "drop 1 argv" ?w] pa by simp
  have "stdout (snd (script l argv w)) = stdout w1 @ [ok_message p]"
    using assms pa r check_unique_stdout [of l "package p" "version p" "warehouse p" w1]
    by (auto simp add: script_def main_def print_def split: sum.splits prod.splits if_splits)
  with s1 pa r assms show ?thesis by (simp add: ok_message_def)
qed

theorem success_prints_pypi_witness:
  "fst (script custom_run [''cv.py'', ''pkg'', ''-w'', test_pypi] fresh_world) = Inr ()
   \<and> exit_code (fst (script custom_run [''cv.py'', ''pkg'', ''-w'', test_pypi] fresh_world)) = 0"
proof -
  have h: "fst (script custom_run [''cv.py'', ''pkg'', ''-w'', test_pypi] fresh_world) = Inr ()"
    by (simp add: run_defs Let_def)
  show ?thesis
    using h success_prints_pypi [OF h] by simp
qed

text \<open>
  C4 as stated fails for a custom registry: the run looks the version up on
  \<^verbatim>\<open>https://test.pypi.org/pypi\<close> and prints that it is not present on \<^verbatim>\<open>PyPI\<close>.
\<close>

theorem custom_registry_counterexample:
  "fst (script custom_run [''cv.py'', ''pkg'', ''-w'', test_pypi] fresh_world) = Inr ()
   \<and> requests (snd (script custom_run [''cv.py'', ''pkg'', ''-w'', test_pypi] fresh_world))
       = [''https://test.pypi.org/pypi/pkg/json'']
   \<and> stdout (snd (script custom_run [''cv.py'', ''pkg'', ''-w'', test_pypi] fresh_world))
       = [''OK: pkg 1.0.0 is valid and not present on PyPI.'']
   \<and> stdout (snd (script custom_run [''cv.py'', ''pkg'', ''-w'', test_pypi] fresh_world))
       \<noteq> [''OK: pkg 1.0.0 is valid and not present on https://test.pypi.org/pypi.'']
   \<and> \<not> str_in ''test.pypi.org'' ''OK: pkg 1.0.0 is valid and not present on PyPI.''"
  by (simp add: run_defs Let_def)

text \<open>
  C9.  In a run with \<^verbatim>\<open>--dry\<close> that passes the format check and, when a type is
  expected, the type check, \<^verbatim>\<open>main\<close> returns and prints its line, no URL is requested,
  and the result is the same whatever \<^verbatim>\<open>urlopen\<close> and \<^verbatim>\<open>json.loads\<close> would do.
\<close>

theorem dry_run_skips_registry:
  assumes "parse_args l args w = (Inr p, w1)"
    and "dry_run p"
    and "check_version_format l (package p) (version p) = Inr ()"
    and "\<forall>t. expected_type p = Some t \<longrightarrow> check_version_type t (version p) = Inr ()"
  shows "main l args w = (Inr (), print (ok_message p) w1)
         \<and> requests (snd (main l args w)) = requests w
         \<and> (\<forall>u j. main (l\<lparr>urlopen := u, json_loads := j\<rparr>) args w = main l args w)"
proof -
  have m: "main l args w = (Inr (), print (ok_message p) w1)"
    using assms by (simp add: main_def split: option.splits)
  have "requests w1 = requests w"
    using parse_args_frame [of l args w] assms(1) by simp
  then have r: "requests (snd (main l args w)) = requests w"
    by (simp add: m print_def)
  have "main (l\<lparr>urlopen := u, json_loads := j\<rparr>) args w = (Inr (), print (ok_message p) w1)"
    for u j
    using assms
    by (simp add: main_def parse_args_registry check_version_format_def split: option.splits)
  with m r show ?thesis by simp
qed

theorem dry_run_skips_registry_witness:
  "main dry_run_offline [''pkg'', ''--dry''] fresh_world
     = (Inr (), fresh_world\<lparr>sys_modules := [''pkg'' \<mapsto> Module pkg_module],
                            stdout := [''OK: pkg 1.0.0 is valid and not present on PyPI.'']\<rparr>)
   \<and> requests (snd (main dry_run_offline [''pkg'', ''--dry''] fresh_world)) = []"
proof -
  let ?p = "\<lparr>warehouse = ''https://pypi.org/pypi'', package = ''pkg'', version = ''1.0.0'',
             expected_type = None, dry_run = True\<rparr>"
  let ?w1 = "fresh_world\<lparr>sys_modules := [''pkg'' \<mapsto> Module pkg_module]\<rparr>"
  have a: "parse_args dry_run_offline [''pkg'', ''--dry''] fresh_world = (Inr ?p, ?w1)"
    by (simp add: run_defs Let_def)
  have b: "dry_run ?p" by simp
  have c: "check_version_format dry_run_offline (package ?p) (version ?p) = Inr ()"
    by (simp add: run_defs)
  have d: "\<forall>t. expected_type ?p = Some t \<longrightarrow> check_version_type t (version ?p) = Inr ()"
    by simp
  show ?thesis
    using dry_run_skips_registry [OF a b c d]
    by (simp add: print_def ok_message_def fresh_world_def)
qed

end
